theory Spec2Isabelle
  imports Main "HOL-Library.Word"
begin

section \<open>The two headers, line by line\<close>

text \<open>
  The repository consists of two C headers that contain nothing but comments and
  preprocessor directives. They are embedded as they are written: one string per source
  line, in order, with the comments kept. Everything below (lexing, directives, their
  effect on the macro table) is computed from these two texts.
\<close>

definition riot_bindgen_h :: "string list" where
  \<open>riot_bindgen_h =
   [''// Workarounds for https://github.com/rust-lang/rust-bindgen/issues/1636'',
    ''// (only needed when building for cortex using toolchain=llvm)'',
    ''#define UINT16_MAX 0xffff'',
    ''#define UINT32_MAX 0xffffffff'',
    '''',
    ''#include "riot-headers.h"'',
    '''']\<close>

definition riot_c2rust_h :: "string list" where
  \<open>riot_c2rust_h =
   [''// This is currently the only relevant user of stdatomic.h. As it doesn't'',
    ''// access its relevant atomic field from static inlines (and thus from built'',
    ''// Rust) and forbids users from touching it themselves, we can work around'',
    ''// C2Rust's current inability to do atomics here'',
    ''//'',
    ''// Proper fix: resolve https://github.com/immunant/c2rust/issues/293'',
    ''#define __CLANG_STDATOMIC_H // for clang'',
    ''#define _STDATOMIC_H // for GCC'',
    ''#define _STDATOMIC_H_ // for newlib'',
    ''#define ATOMIC_VAR_INIT(x) x'',
    ''#define atomic_int_least16_t int_least16_t // FIXME is it?'',
    ''#include <rmutex.h>'',
    ''#undef __CLANG_STDATOMIC_H'',
    ''#undef _STDATOMIC_H_'',
    ''#undef _STDATOMIC_H'',
    ''#undef ATOMIC_VAR_INIT'',
    ''#undef atomic_int_least16_t'',
    '''',
    ''// Allow header files that pull in lots of odd stuff but don't depend on'',
    ''// inlines -- like nimble's host/ble_gap.h -- to opt out of C2Rust altogether'',
    ''#define IS_C2RUST'',
    '''',
    ''#include "riot-headers.h"'']\<close>

section \<open>Lexing a line\<close>

definition is_space :: "char \<Rightarrow> bool" where
  "is_space c \<longleftrightarrow> c = CHR '' '' \<or> c = CHR 0x09"

definition is_digit :: "char \<Rightarrow> bool" where
  "is_digit c \<longleftrightarrow> c \<in> set ''0123456789''"

definition is_ident_char :: "char \<Rightarrow> bool" where
  "is_ident_char c \<longleftrightarrow>
     c \<in> set ''abcdefghijklmnopqrstuvwxyzABCDEFGHIJKLMNOPQRSTUVWXYZ_'' \<or> is_digit c"

definition is_identifier :: "string \<Rightarrow> bool" where
  "is_identifier s \<longleftrightarrow> s \<noteq> [] \<and> list_all is_ident_char s \<and> \<not> is_digit (hd s)"

text \<open>
  A \<open>//\<close> comment runs to the end of its line and counts as white space. The flag tells
  whether the scan is inside a double-quoted literal, where \<open>//\<close> is ordinary text.
  Block comments do not occur in the two headers and are not recognised.
\<close>

fun strip_comment :: "bool \<Rightarrow> string \<Rightarrow> string" where
  "strip_comment q [] = []"
| "strip_comment q [c] = [c]"
| "strip_comment q (c # d # cs) =
     (if c = CHR 0x22 then c # strip_comment (\<not> q) (d # cs)
      else if \<not> q \<and> c = CHR ''/'' \<and> d = CHR ''/'' then []
      else c # strip_comment q (d # cs))"

definition flush :: "string \<Rightarrow> string list" where
  "flush acc = (if acc = [] then [] else [rev acc])"

text \<open>
  Preprocessing tokens of a replacement list: a maximal run of letters, digits and
  underscores is one token (an identifier or a number), every other character that is not
  white space is a token of its own. The first argument holds the run read so far,
  reversed.
\<close>

fun lex :: "string \<Rightarrow> string \<Rightarrow> string list" where
  "lex acc [] = flush acc"
| "lex acc (c # cs) =
     (if is_ident_char c then lex (c # acc) cs
      else flush acc @ (if is_space c then [] else [[c]]) @ lex [] cs)"

definition tokens :: "string \<Rightarrow> string list" where
  "tokens s = lex [] s"

definition trim :: "string \<Rightarrow> string" where
  "trim s = rev (dropWhile is_space (rev (dropWhile is_space s)))"

section \<open>Directives\<close>

datatype incl_kind = Angle | Quote

text \<open>
  A macro is its parameter list (\<open>None\<close> for an object-like macro, \<open>Some ps\<close> for a
  function-like one) and its replacement list.
\<close>

type_synonym macro = "string list option \<times> string list"

datatype directive =
    Define string "string list option" "string list"
  | Undef string
  | Include incl_kind string

text \<open>
  A source line is blank (possibly after its comment is removed), one of the three
  directives the headers use, or something this development does not give a meaning to
  (any other directive, such as a conditional, or program text); the last kind keeps the
  line.
\<close>

datatype line = Blank | Directive directive | Unsupported string

fun param_list :: "string list \<Rightarrow> string list option" where
  "param_list [] = Some []"
| "param_list [p] = (if is_identifier p then Some [p] else None)"
| "param_list (p # c # ts) =
     (if is_identifier p \<and> c = '','' \<and> ts \<noteq> [] then map_option (Cons p) (param_list ts)
      else None)"

text \<open>
  \<open>#define\<close>: the macro name, then a parameter list if (and only if) an opening
  parenthesis follows the name with no space before it, then the replacement list.
\<close>

definition parse_define :: "string \<Rightarrow> string \<Rightarrow> line" where
  "parse_define l r =
     (let r1 = dropWhile is_space r;
          name = takeWhile is_ident_char r1;
          r2 = dropWhile is_ident_char r1
      in if \<not> is_identifier name then Unsupported l
         else case r2 of
           [] \<Rightarrow> Directive (Define name None [])
         | c # r3 \<Rightarrow>
             if c = CHR ''('' then
               (if CHR '')'' \<notin> set r3 then Unsupported l
                else case param_list (tokens (takeWhile (\<lambda>x. x \<noteq> CHR '')'') r3)) of
                  None \<Rightarrow> Unsupported l
                | Some ps \<Rightarrow>
                    Directive (Define name (Some ps)
                      (tokens (drop 1 (dropWhile (\<lambda>x. x \<noteq> CHR '')'') r3)))))
             else if is_space c then Directive (Define name None (tokens r2))
             else Unsupported l)"

definition parse_undef :: "string \<Rightarrow> string \<Rightarrow> line" where
  "parse_undef l r =
     (case tokens r of
        [n] \<Rightarrow> if is_identifier n then Directive (Undef n) else Unsupported l
      | _ \<Rightarrow> Unsupported l)"

definition parse_include :: "string \<Rightarrow> string \<Rightarrow> line" where
  "parse_include l r =
     (let s = trim r
      in if 2 \<le> length s \<and> hd s = CHR ''<'' \<and> last s = CHR ''>''
         then Directive (Include Angle (butlast (tl s)))
         else if 2 \<le> length s \<and> hd s = CHR 0x22 \<and> last s = CHR 0x22
         then Directive (Include Quote (butlast (tl s)))
         else Unsupported l)"

definition parse_line :: "string \<Rightarrow> line" where
  "parse_line l =
     (case dropWhile is_space (strip_comment False l) of
        [] \<Rightarrow> Blank
      | c # r \<Rightarrow>
          if c \<noteq> CHR ''#'' then Unsupported l
          else let r1 = dropWhile is_space r;
                   kw = takeWhile is_ident_char r1;
                   r2 = dropWhile is_ident_char r1
               in if kw = ''define'' then parse_define l r2
                  else if kw = ''undef'' then parse_undef l r2
                  else if kw = ''include'' then parse_include l r2
                  else Unsupported l)"

fun directives :: "line list \<Rightarrow> directive list" where
  "directives [] = []"
| "directives (Directive d # ls) = d # directives ls"
| "directives (l # ls) = directives ls"

section \<open>Preprocessing\<close>

text \<open>
  The macro table maps a name to its current definition. A header named by an
  \<open>#include\<close> is not part of the repository: what its inclusion does to the macro table
  is a parameter, a function from the table it is entered with to the table it leaves,
  or \<open>None\<close> when the inclusion fails (no such file, or a fatal error inside it).
\<close>

type_synonym menv = "string \<rightharpoonup> macro"
type_synonym header = "incl_kind \<times> string"
type_synonym headers = "header \<Rightarrow> menv \<Rightarrow> menv option"

datatype pp_error = Bad_line string | Include_failed incl_kind string

text \<open>
  The state of a run: the macro table, the inclusions made so far, each with the macro
  table the included header was entered with, and the error that stopped the run, if any.
\<close>

record pp_state =
  macros :: menv
  entered :: "(header \<times> menv) list"
  halted :: "pp_error option"

text \<open>
  \<open>#define\<close> binds the name (a definition already present is replaced), \<open>#undef\<close>
  removes the binding and does nothing when there is none, \<open>#include\<close> records the
  inclusion and hands the macro table to the included header.
\<close>

fun exec_directive :: "headers \<Rightarrow> directive \<Rightarrow> pp_state \<Rightarrow> pp_state" where
  "exec_directive H (Define n ps body) s = s\<lparr>macros := (macros s)(n \<mapsto> (ps, body))\<rparr>"
| "exec_directive H (Undef n) s = s\<lparr>macros := (macros s)(n := None)\<rparr>"
| "exec_directive H (Include k h) s =
     (let s' = s\<lparr>entered := entered s @ [((k, h), macros s)]\<rparr>
      in case H (k, h) (macros s) of
           None \<Rightarrow> s'\<lparr>halted := Some (Include_failed k h)\<rparr>
         | Some m \<Rightarrow> s'\<lparr>macros := m\<rparr>)"

fun exec_line :: "headers \<Rightarrow> line \<Rightarrow> pp_state \<Rightarrow> pp_state" where
  "exec_line H Blank s = s"
| "exec_line H (Directive d) s = exec_directive H d s"
| "exec_line H (Unsupported t) s = s\<lparr>halted := Some (Bad_line t)\<rparr>"

text \<open>Lines are processed in order; nothing is processed after an error.\<close>

fun run :: "headers \<Rightarrow> line list \<Rightarrow> pp_state \<Rightarrow> pp_state" where
  "run H [] s = s"
| "run H (l # ls) s =
     (case halted s of
        Some err \<Rightarrow> s
      | None \<Rightarrow> run H ls (exec_line H l s))"

definition start :: "menv \<Rightarrow> pp_state" where
  "start e = \<lparr>macros = e, entered = [], halted = None\<rparr>"

definition preprocess :: "headers \<Rightarrow> string list \<Rightarrow> menv \<Rightarrow> pp_state" where
  "preprocess H file e = run H (map parse_line file) (start e)"

text \<open>The macro tables with which a given header is entered during a run.\<close>

definition seen_by :: "header \<Rightarrow> pp_state \<Rightarrow> menv list" where
  "seen_by h s = map snd (filter (\<lambda>p. fst p = h) (entered s))"

section \<open>Macro replacement\<close>

text \<open>One replacement step of an object-like macro: the name is replaced by its replacement list.\<close>

definition expand_object :: "menv \<Rightarrow> string \<Rightarrow> string list option" where
  "expand_object e n =
     (case e n of
        Some (None, body) \<Rightarrow> Some body
      | _ \<Rightarrow> None)"

text \<open>
  Complete macro replacement of a token sequence (C11 6.10.3), in the form of Prosser's
  algorithm: every token carries a hide set, the names of the macros whose replacement
  produced it, and a token whose own name is in its hide set is never replaced.
\<close>

type_synonym ptok = "string \<times> string list"

definition plain :: "string list \<Rightarrow> ptok list" where
  "plain ts = map (\<lambda>t. (t, [])) ts"

definition texts :: "ptok list \<Rightarrow> string list" where
  "texts ts = map fst ts"

definition hsadd :: "string list \<Rightarrow> ptok list \<Rightarrow> ptok list" where
  "hsadd hs ts = map (\<lambda>p. (fst p, hs @ snd p)) ts"

definition hsinter :: "string list \<Rightarrow> string list \<Rightarrow> string list" where
  "hsinter hs hs' = filter (\<lambda>n. n \<in> set hs') hs"

text \<open>
  The arguments of an invocation, read after its opening parenthesis: they are separated
  by the commas that are not inside nested parentheses and end at the matching closing
  parenthesis. The result is the arguments, the hide set of the closing parenthesis and
  the tokens after it; there is none when the closing parenthesis is missing.
\<close>

fun actuals ::
  "nat \<Rightarrow> ptok list \<Rightarrow> ptok list list \<Rightarrow> ptok list
     \<Rightarrow> (ptok list list \<times> string list \<times> ptok list) option" where
  "actuals d cur args [] = None"
| "actuals d cur args (p # ts) =
     (if fst p = ''('' then actuals (Suc d) (cur @ [p]) args ts
      else if fst p = '')'' then
        (case d of
           0 \<Rightarrow> Some (args @ [cur], snd p, ts)
         | Suc d' \<Rightarrow> actuals d' (cur @ [p]) args ts)
      else if fst p = '','' \<and> d = 0 then actuals 0 [] (args @ [cur]) ts
      else actuals d (cur @ [p]) args ts)"

text \<open>
  Parameters are bound to arguments by position; a macro without parameters is invoked
  with a single empty argument. Any other mismatch in number has no result.
\<close>

definition bind :: "string list \<Rightarrow> ptok list list \<Rightarrow> (string \<times> ptok list) list option" where
  "bind ps args =
     (if ps = [] \<and> args = [[]] then Some []
      else if length ps = length args then Some (zip ps args)
      else None)"

text \<open>
  \<open>expand\<close> scans a token sequence from left to right. An object-like macro is replaced
  by its replacement list. A function-like macro is replaced only when an opening
  parenthesis follows: \<open>subst\<close> builds its replacement list, in which each parameter
  stands for the corresponding argument after that argument has been completely
  macro-replaced on its own. In both cases the result is scanned again together with
  the tokens that follow, the macro's name being added to the hide sets. The first
  argument bounds the number of nested replacements; the result is \<open>None\<close> when it is
  exhausted, and also when an invocation is malformed (no closing parenthesis, wrong
  number of arguments). The operators \<open>#\<close> and \<open>##\<close> are not given a meaning: a
  replacement list that contains one has no result.
\<close>

fun expand :: "nat \<Rightarrow> menv \<Rightarrow> ptok list \<Rightarrow> ptok list option"
  and subst :: "nat \<Rightarrow> menv \<Rightarrow> (string \<times> ptok list) list \<Rightarrow> string list \<Rightarrow> ptok list option"
where
  "expand n m [] = Some []"
| "expand n m (p # ts) =
     (if fst p \<in> set (snd p) then map_option (Cons p) (expand n m ts)
      else case m (fst p) of
        None \<Rightarrow> map_option (Cons p) (expand n m ts)
      | Some (None, body) \<Rightarrow>
          (case n of
             0 \<Rightarrow> None
           | Suc k \<Rightarrow> expand k m (hsadd (fst p # snd p) (plain body) @ ts))
      | Some (Some ps, body) \<Rightarrow>
          (if ts \<noteq> [] \<and> fst (hd ts) = ''('' then
             (case n of
                0 \<Rightarrow> None
              | Suc k \<Rightarrow>
                  (case actuals 0 [] [] (tl ts) of
                     None \<Rightarrow> None
                   | Some (args, hcl, rest) \<Rightarrow>
                       (case bind ps args of
                          None \<Rightarrow> None
                        | Some bs \<Rightarrow>
                            if ''#'' \<in> set body then None
                            else (case subst k m bs body of
                                    None \<Rightarrow> None
                                  | Some os \<Rightarrow>
                                      expand k m
                                        (hsadd (fst p # hsinter (snd p) hcl) os @ rest)))))
           else map_option (Cons p) (expand n m ts)))"
| "subst k m bs [] = Some []"
| "subst k m bs (b # body) =
     (case map_of bs b of
        None \<Rightarrow> map_option (Cons (b, [])) (subst k m bs body)
      | Some arg \<Rightarrow>
          (case expand k m arg of
             None \<Rightarrow> None
           | Some a \<Rightarrow> map_option (append a) (subst k m bs body)))"


text \<open>
  The replacement of one invocation, given its arguments, before it is scanned again.
\<close>

definition expand_call :: "nat \<Rightarrow> menv \<Rightarrow> string \<Rightarrow> ptok list list \<Rightarrow> ptok list option" where
  "expand_call k m n args =
     (case m n of
        Some (Some ps, body) \<Rightarrow>
          (case bind ps args of
             None \<Rightarrow> None
           | Some bs \<Rightarrow> if ''#'' \<in> set body then None else subst k m bs body)
      | _ \<Rightarrow> None)"

text \<open>The same on plain token texts, and the complete replacement of a piece of text.\<close>

definition replace_call :: "nat \<Rightarrow> string \<Rightarrow> string list list \<Rightarrow> menv \<Rightarrow> string list option" where
  "replace_call k n args m = map_option texts (expand_call k m n (map plain args))"

definition expand_text :: "nat \<Rightarrow> string \<Rightarrow> menv \<Rightarrow> string list option" where
  "expand_text k s m = map_option texts (expand k m (plain (tokens s)))"

text \<open>
  A token sequence is a single argument when its parentheses are balanced and it has no
  comma outside parentheses. \<open>scan_arg\<close> returns the nesting depth after the sequence.
\<close>

fun scan_arg :: "nat \<Rightarrow> string list \<Rightarrow> nat option" where
  "scan_arg d [] = Some d"
| "scan_arg d (t # ts) =
     (if t = ''('' then scan_arg (Suc d) ts
      else if t = '')'' then (case d of 0 \<Rightarrow> None | Suc d' \<Rightarrow> scan_arg d' ts)
      else if t = '','' \<and> d = 0 then None
      else scan_arg d ts)"

definition single_argument :: "string list \<Rightarrow> bool" where
  "single_argument x \<longleftrightarrow> scan_arg 0 x = Some 0"

section \<open>Integer constants\<close>

definition hex_digit :: "char \<Rightarrow> nat option" where
  "hex_digit c =
     (if c \<in> set ''0123456789'' then Some (of_char c - of_char CHR ''0'')
      else if c \<in> set ''abcdef'' then Some (of_char c - of_char CHR ''a'' + 10)
      else if c \<in> set ''ABCDEF'' then Some (of_char c - of_char CHR ''A'' + 10)
      else None)"

fun hex_value :: "nat \<Rightarrow> string \<Rightarrow> nat option" where
  "hex_value acc [] = Some acc"
| "hex_value acc (c # cs) =
     (case hex_digit c of
        None \<Rightarrow> None
      | Some d \<Rightarrow> hex_value (16 * acc + d) cs)"

text \<open>
  The value of an unsuffixed hexadecimal constant (\<open>0x\<close> or \<open>0X\<close>, then at least one
  hexadecimal digit); other forms of constant have no value here.
\<close>

fun int_constant :: "string \<Rightarrow> nat option" where
  "int_constant (z # x # d # ds) =
     (if z = CHR ''0'' \<and> (x = CHR ''x'' \<or> x = CHR ''X'') then hex_value 0 (d # ds) else None)"
| "int_constant s = None"

section \<open>What a header defines, undefines and includes\<close>

fun defined_names :: "directive list \<Rightarrow> string list" where
  "defined_names [] = []"
| "defined_names (Define n ps body # ds) = n # defined_names ds"
| "defined_names (d # ds) = defined_names ds"

fun undefined_names :: "directive list \<Rightarrow> string list" where
  "undefined_names [] = []"
| "undefined_names (Undef n # ds) = n # undefined_names ds"
| "undefined_names (d # ds) = undefined_names ds"

fun included_headers :: "directive list \<Rightarrow> header list" where
  "included_headers [] = []"
| "included_headers (Include k h # ds) = (k, h) # included_headers ds"
| "included_headers (d # ds) = included_headers ds"

fun is_define :: "directive \<Rightarrow> bool" where
  "is_define (Define n ps body) = True"
| "is_define d = False"

fun is_undef :: "directive \<Rightarrow> bool" where
  "is_undef (Undef n) = True"
| "is_undef d = False"

fun is_supported :: "line \<Rightarrow> bool" where
  "is_supported (Unsupported t) = False"
| "is_supported l = True"

definition header_directives :: "string list \<Rightarrow> directive list" where
  "header_directives file = directives (map parse_line file)"

text \<open>
  The shape the specification gives to each header, in its words: macro definitions, then
  one inclusion, then macro cleanup, and nothing else.
\<close>

definition spec_single_bracket :: "directive list \<Rightarrow> bool" where
  "spec_single_bracket ds =
     (case dropWhile is_define ds of
        Include k h # rest \<Rightarrow> list_all is_undef rest
      | _ \<Rightarrow> False)"

text \<open>
  The restoration the specification speaks of, in its words: after the header has been
  processed, every macro that it defined is no longer defined.
\<close>

definition spec_restored :: "headers \<Rightarrow> string list \<Rightarrow> menv \<Rightarrow> bool" where
  "spec_restored H file e =
     list_all (\<lambda>n. macros (preprocess H file e) n = None) (defined_names (header_directives file))"

text \<open>
  The restoration of given names the specification speaks of, in its words: after the
  lines have been processed, each of the names is in the state it had before.
\<close>

definition spec_prior_state :: "headers \<Rightarrow> string list \<Rightarrow> menv \<Rightarrow> string list \<Rightarrow> bool" where
  "spec_prior_state H file e ns = list_all (\<lambda>n. macros (preprocess H file e) n = e n) ns"

section \<open>Include guards\<close>

text \<open>
  The three macros that the c2rust header defines with the remarks \<open>for clang\<close>,
  \<open>for GCC\<close> and \<open>for newlib\<close> are the include guards of those toolchains'
  \<open>stdatomic.h\<close>. A header protected by a guard \<open>g\<close> reads
  \<^verbatim>\<open>#ifndef g\<close>, \<^verbatim>\<open>#define g\<close>, its contents, \<^verbatim>\<open>#endif\<close>: when \<open>g\<close> is defined on
  entry the contents are skipped and the macro table is left as it is, otherwise \<open>g\<close>
  is defined and the contents are processed.
\<close>

definition include_guarded :: "string \<Rightarrow> (menv \<Rightarrow> menv option) \<Rightarrow> menv \<Rightarrow> menv option" where
  "include_guarded g contents e =
     (if e g = None then contents (e(g \<mapsto> (None, []))) else Some e)"

section \<open>Values of macros\<close>

definition macro_value :: "menv \<Rightarrow> string \<Rightarrow> nat option" where
  "macro_value e n =
     (case expand_object e n of
        Some [t] \<Rightarrow> int_constant t
      | _ \<Rightarrow> None)"

section \<open>A concrete environment\<close>

text \<open>
  For concrete runs: no macro defined on entry, and included headers that are found and
  leave the macro table as they find it.
\<close>

definition no_macros :: menv where
  "no_macros = Map.empty"

definition plain_headers :: headers where
  "plain_headers h e = Some e"

text \<open>
  A macro table in which GCC's \<open>stdatomic.h\<close> has already been included: its guard is
  defined.
\<close>

definition stdatomic_included :: menv where
  "stdatomic_included = [''_STDATOMIC_H'' \<mapsto> (None, [])]"

section \<open>The headers as directives\<close>

text \<open>
  What the lexer makes of the two texts: the comment lines and the empty lines are blank,
  every other line is one of the three directives.
\<close>

lemma parse_riot_bindgen_h:
  "map parse_line riot_bindgen_h =
     [Blank, Blank,
      Directive (Define ''UINT16_MAX'' None [''0xffff'']),
      Directive (Define ''UINT32_MAX'' None [''0xffffffff'']),
      Blank,
      Directive (Include Quote ''riot-headers.h''),
      Blank]"
  by code_simp

lemma parse_riot_c2rust_h:
  "map parse_line riot_c2rust_h =
     [Blank, Blank, Blank, Blank, Blank, Blank,
      Directive (Define ''__CLANG_STDATOMIC_H'' None []),
      Directive (Define ''_STDATOMIC_H'' None []),
      Directive (Define ''_STDATOMIC_H_'' None []),
      Directive (Define ''ATOMIC_VAR_INIT'' (Some [''x'']) [''x'']),
      Directive (Define ''atomic_int_least16_t'' None [''int_least16_t'']),
      Directive (Include Angle ''rmutex.h''),
      Directive (Undef ''__CLANG_STDATOMIC_H''),
      Directive (Undef ''_STDATOMIC_H_''),
      Directive (Undef ''_STDATOMIC_H''),
      Directive (Undef ''ATOMIC_VAR_INIT''),
      Directive (Undef ''atomic_int_least16_t''),
      Blank, Blank, Blank,
      Directive (Define ''IS_C2RUST'' None []),
      Blank,
      Directive (Include Quote ''riot-headers.h'')]"
  by code_simp

lemma directives_riot_bindgen_h:
  "header_directives riot_bindgen_h =
     [Define ''UINT16_MAX'' None [''0xffff''],
      Define ''UINT32_MAX'' None [''0xffffffff''],
      Include Quote ''riot-headers.h'']"
  by (simp add: header_directives_def parse_riot_bindgen_h)

lemma directives_riot_c2rust_h:
  "header_directives riot_c2rust_h =
     [Define ''__CLANG_STDATOMIC_H'' None [],
      Define ''_STDATOMIC_H'' None [],
      Define ''_STDATOMIC_H_'' None [],
      Define ''ATOMIC_VAR_INIT'' (Some [''x'']) [''x''],
      Define ''atomic_int_least16_t'' None [''int_least16_t''],
      Include Angle ''rmutex.h'',
      Undef ''__CLANG_STDATOMIC_H'',
      Undef ''_STDATOMIC_H_'',
      Undef ''_STDATOMIC_H'',
      Undef ''ATOMIC_VAR_INIT'',
      Undef ''atomic_int_least16_t'',
      Define ''IS_C2RUST'' None [],
      Include Quote ''riot-headers.h'']"
  by (simp add: header_directives_def parse_riot_c2rust_h)

text \<open>
  The c2rust header in parts: lines 1 to 11 (up to the line before the first inclusion),
  lines 1 to 17 (up to the last \<open>#undef\<close>), and lines 18 to 23.
\<close>

lemma directives_bracket_defines:
  "header_directives (take 11 riot_c2rust_h) =
     [Define ''__CLANG_STDATOMIC_H'' None [],
      Define ''_STDATOMIC_H'' None [],
      Define ''_STDATOMIC_H_'' None [],
      Define ''ATOMIC_VAR_INIT'' (Some [''x'']) [''x''],
      Define ''atomic_int_least16_t'' None [''int_least16_t'']]"
  by (simp add: header_directives_def take_map [symmetric] parse_riot_c2rust_h)

lemma directives_bracket:
  "header_directives (take 17 riot_c2rust_h) = take 11 (header_directives riot_c2rust_h)"
  by (simp add: header_directives_def take_map [symmetric] parse_riot_c2rust_h)

lemma riot_c2rust_h_tail:
  "map parse_line (drop 17 riot_c2rust_h) =
     [Blank, Blank, Blank, Directive (Define ''IS_C2RUST'' None []), Blank,
      Directive (Include Quote ''riot-headers.h'')]"
  by (simp add: drop_map [symmetric] parse_riot_c2rust_h)

text \<open>
  Lines of other kinds, for comparison: a conditional and program text are not among the
  supported lines, a parenthesis after a space starts the replacement list, and \<open>//\<close>
  inside a quoted header name is not a comment.
\<close>

lemma parse_line_conditional:
  "parse_line ''#ifndef IS_C2RUST'' = Unsupported ''#ifndef IS_C2RUST''"
  by code_simp

lemma parse_line_program_text:
  "parse_line ''int x; // comment'' = Unsupported ''int x; // comment''"
  by code_simp

lemma parse_line_object_like_with_parenthesis:
  "parse_line ''#define F (x) x'' = Directive (Define ''F'' None [''('', ''x'', '')'', ''x''])"
  by code_simp

lemma parse_line_two_parameters:
  "parse_line ''  # define MAX(a, b) a // comment''
     = Directive (Define ''MAX'' (Some [''a'', ''b'']) [''a''])"
  by code_simp

lemma parse_line_quoted_slashes:
  \<open>parse_line ''#include "a//b.h"'' = Directive (Include Quote ''a//b.h'')\<close>
  by code_simp

section \<open>Running the headers\<close>

lemma run_halted: "halted s \<noteq> None \<Longrightarrow> run H ls s = s"
  by (cases ls) auto

lemma run_append: "run H (xs @ ys) s = run H ys (run H xs s)"
proof (induction xs arbitrary: s)
  case Nil
  show ?case by simp
next
  case (Cons x xs)
  show ?case
  proof (cases "halted s")
    case None
    with Cons show ?thesis by simp
  next
    case (Some err)
    then show ?thesis by (simp add: run_halted)
  qed
qed

lemma preprocess_split:
  "preprocess H file e = run H (map parse_line (drop n file)) (preprocess H (take n file) e)"
proof -
  have "map parse_line file = map parse_line (take n file) @ map parse_line (drop n file)"
    by (simp flip: map_append)
  then show ?thesis
    by (simp add: preprocess_def run_append)
qed

text \<open>
  The bindgen header, for any macro table on entry and any included headers: the two
  limits are bound, \<open>riot-headers.h\<close> is entered, and the header does nothing more.
\<close>

lemma run_riot_bindgen_h:
  assumes "m1 = e(''UINT16_MAX'' \<mapsto> (None, [''0xffff'']),
                  ''UINT32_MAX'' \<mapsto> (None, [''0xffffffff'']))"
  shows "preprocess H riot_bindgen_h e =
     (case H (Quote, ''riot-headers.h'') m1 of
        None \<Rightarrow>
          \<lparr>macros = m1, entered = [((Quote, ''riot-headers.h''), m1)],
           halted = Some (Include_failed Quote ''riot-headers.h'')\<rparr>
      | Some m \<Rightarrow>
          \<lparr>macros = m, entered = [((Quote, ''riot-headers.h''), m1)], halted = None\<rparr>)"
  using assms
  by (simp add: preprocess_def parse_riot_bindgen_h start_def split: option.split)

text \<open>
  The c2rust header up to and including its last \<open>#undef\<close> (lines 1 to 17), and as a
  whole.
\<close>

lemma run_riot_c2rust_h_bracket:
  assumes "m1 = e(''__CLANG_STDATOMIC_H'' \<mapsto> (None, []),
                  ''_STDATOMIC_H'' \<mapsto> (None, []),
                  ''_STDATOMIC_H_'' \<mapsto> (None, []),
                  ''ATOMIC_VAR_INIT'' \<mapsto> (Some [''x''], [''x'']),
                  ''atomic_int_least16_t'' \<mapsto> (None, [''int_least16_t'']))"
  shows "preprocess H (take 17 riot_c2rust_h) e =
     (case H (Angle, ''rmutex.h'') m1 of
        None \<Rightarrow>
          \<lparr>macros = m1, entered = [((Angle, ''rmutex.h''), m1)],
           halted = Some (Include_failed Angle ''rmutex.h'')\<rparr>
      | Some m \<Rightarrow>
          \<lparr>macros = m(''__CLANG_STDATOMIC_H'' := None, ''_STDATOMIC_H_'' := None,
                      ''_STDATOMIC_H'' := None, ''ATOMIC_VAR_INIT'' := None,
                      ''atomic_int_least16_t'' := None),
           entered = [((Angle, ''rmutex.h''), m1)], halted = None\<rparr>)"
  using assms
  by (simp add: preprocess_def take_map [symmetric] parse_riot_c2rust_h start_def split: option.split)

lemma run_riot_c2rust_h:
  assumes "preprocess H (take 17 riot_c2rust_h) e = \<lparr>macros = m, entered = es, halted = None\<rparr>"
    and "m2 = m(''IS_C2RUST'' \<mapsto> (None, []))"
  shows "preprocess H riot_c2rust_h e =
     (case H (Quote, ''riot-headers.h'') m2 of
        None \<Rightarrow>
          \<lparr>macros = m2, entered = es @ [((Quote, ''riot-headers.h''), m2)],
           halted = Some (Include_failed Quote ''riot-headers.h'')\<rparr>
      | Some m3 \<Rightarrow>
          \<lparr>macros = m3, entered = es @ [((Quote, ''riot-headers.h''), m2)],
           halted = None\<rparr>)"
  using assms
  by (simp add: preprocess_split [of H riot_c2rust_h e 17] riot_c2rust_h_tail
      split: option.split)

lemma run_riot_c2rust_h_halted:
  assumes "halted (preprocess H (take 17 riot_c2rust_h) e) \<noteq> None"
  shows "preprocess H riot_c2rust_h e = preprocess H (take 17 riot_c2rust_h) e"
  using assms
  by (simp add: preprocess_split [of H riot_c2rust_h e 17] run_halted)

text \<open>
  The inclusions the c2rust header makes: \<open>rmutex.h\<close> always, entered with the five
  workaround macros bound, and \<open>riot-headers.h\<close> if \<open>rmutex.h\<close> could be included,
  entered with what \<open>rmutex.h\<close> left minus those five names and with \<open>IS_C2RUST\<close>
  bound.
\<close>

lemma entered_riot_c2rust_h:
  assumes "m1 = e(''__CLANG_STDATOMIC_H'' \<mapsto> (None, []),
                  ''_STDATOMIC_H'' \<mapsto> (None, []),
                  ''_STDATOMIC_H_'' \<mapsto> (None, []),
                  ''ATOMIC_VAR_INIT'' \<mapsto> (Some [''x''], [''x'']),
                  ''atomic_int_least16_t'' \<mapsto> (None, [''int_least16_t'']))"
  shows "entered (preprocess H riot_c2rust_h e) =
     ((Angle, ''rmutex.h''), m1) #
     (case H (Angle, ''rmutex.h'') m1 of
        None \<Rightarrow> []
      | Some m \<Rightarrow>
          [((Quote, ''riot-headers.h''),
            m(''__CLANG_STDATOMIC_H'' := None, ''_STDATOMIC_H_'' := None,
              ''_STDATOMIC_H'' := None, ''ATOMIC_VAR_INIT'' := None,
              ''atomic_int_least16_t'' := None,
              ''IS_C2RUST'' \<mapsto> (None, [])))])"
proof (cases "H (Angle, ''rmutex.h'') m1")
  case None
  then have b: "preprocess H (take 17 riot_c2rust_h) e =
      \<lparr>macros = m1, entered = [((Angle, ''rmutex.h''), m1)],
       halted = Some (Include_failed Angle ''rmutex.h'')\<rparr>"
    using run_riot_c2rust_h_bracket [OF assms, of H] by simp
  then show ?thesis
    using None run_riot_c2rust_h_halted [of H e] by simp
next
  case (Some m)
  then have b: "preprocess H (take 17 riot_c2rust_h) e =
      \<lparr>macros = m(''__CLANG_STDATOMIC_H'' := None, ''_STDATOMIC_H_'' := None,
                  ''_STDATOMIC_H'' := None, ''ATOMIC_VAR_INIT'' := None,
                  ''atomic_int_least16_t'' := None),
       entered = [((Angle, ''rmutex.h''), m1)], halted = None\<rparr>"
    using run_riot_c2rust_h_bracket [OF assms, of H] by simp
  show ?thesis
    using Some run_riot_c2rust_h [OF b refl] by (simp split: option.split)
qed

text \<open>
  A run of the c2rust header that ends without error has included both headers; its final
  macro table is the one \<open>riot-headers.h\<close> left.
\<close>

lemma completed_riot_c2rust_h:
  assumes "halted (preprocess H riot_c2rust_h e) = None"
  shows "\<exists>m m3. H (Quote, ''riot-headers.h'') (m(''IS_C2RUST'' \<mapsto> (None, []))) = Some m3
           \<and> macros (preprocess H riot_c2rust_h e) = m3
           \<and> seen_by (Quote, ''riot-headers.h'') (preprocess H riot_c2rust_h e) =
               [m(''IS_C2RUST'' \<mapsto> (None, []))]"
proof -
  define s where "s = preprocess H (take 17 riot_c2rust_h) e"
  have h: "halted s = None"
    using assms run_riot_c2rust_h_halted [of H e]
    by (cases "halted s") (auto simp: s_def)
  have s: "preprocess H (take 17 riot_c2rust_h) e =
      \<lparr>macros = macros s, entered = entered s, halted = None\<rparr>"
    using h by (simp add: s_def)
  have es: "seen_by (Quote, ''riot-headers.h'') s = []"
    unfolding s_def using run_riot_c2rust_h_bracket [OF refl, of H e]
    by (simp add: seen_by_def split: option.splits)
  obtain m3 where m3: "H (Quote, ''riot-headers.h'') ((macros s)(''IS_C2RUST'' \<mapsto> (None, []))) = Some m3"
    using assms run_riot_c2rust_h [OF s refl]
    by (cases "H (Quote, ''riot-headers.h'') ((macros s)(''IS_C2RUST'' \<mapsto> (None, [])))") auto
  have "macros (preprocess H riot_c2rust_h e) = m3"
    using m3 run_riot_c2rust_h [OF s refl] by simp
  moreover have "seen_by (Quote, ''riot-headers.h'') (preprocess H riot_c2rust_h e) =
      [(macros s)(''IS_C2RUST'' \<mapsto> (None, []))]"
    using m3 es run_riot_c2rust_h [OF s refl] by (simp add: seen_by_def)
  ultimately show ?thesis
    using m3 by blast
qed

text \<open>With included headers that are found, both parts of the c2rust header run to their end.\<close>

lemma plain_headers_bracket_complete:
  "halted (preprocess plain_headers (take 17 riot_c2rust_h) e) = None"
  using run_riot_c2rust_h_bracket [OF refl, of plain_headers e]
  by (simp add: plain_headers_def)

lemma plain_headers_complete:
  "halted (preprocess plain_headers riot_c2rust_h e) = None"
proof -
  define s where "s = preprocess plain_headers (take 17 riot_c2rust_h) e"
  have "preprocess plain_headers (take 17 riot_c2rust_h) e =
      \<lparr>macros = macros s, entered = entered s, halted = None\<rparr>"
    using plain_headers_bracket_complete [of e] by (simp add: s_def)
  from run_riot_c2rust_h [OF this refl] show ?thesis
    by (simp add: plain_headers_def)
qed

section \<open>Constants and invocations\<close>

lemma int_constant_0xffff: "int_constant ''0xffff'' = Some 65535"
  by (simp add: hex_digit_def)

lemma int_constant_0xffffffff: "int_constant ''0xffffffff'' = Some 4294967295"
  by (simp add: hex_digit_def)

lemma unat_minus_1_16: "unat (- 1 :: 16 word) = 65535"
  by (simp add: unsigned_minus_1_eq_mask mask_eq_exp_minus_1)

lemma unat_minus_1_32: "unat (- 1 :: 32 word) = 4294967295"
  by (simp add: unsigned_minus_1_eq_mask mask_eq_exp_minus_1)

lemma expand_macro_free:
  "\<forall>p \<in> set ts. m (fst p) = None \<Longrightarrow> expand n m ts = Some ts"
  by (induction ts) simp_all

lemma actuals_scan:
  "scan_arg d x = Some d' \<Longrightarrow>
     actuals d cur args (plain x @ ts) = actuals d' (cur @ plain x) args ts"
proof (induction x arbitrary: d cur)
  case Nil
  then show ?case by (simp add: plain_def)
next
  case (Cons t x)
  then show ?case
    by (cases d) (auto simp: plain_def split: if_splits)
qed

lemma expand_invocation:
  assumes "m t = Some (Some ps, body)" and "t \<notin> set hs"
  shows "expand (Suc k) m ((t, hs) # (''('', hp) # ts) =
     (case actuals 0 [] [] ts of
        None \<Rightarrow> None
      | Some (args, hcl, rest) \<Rightarrow>
          (case expand_call k m t args of
             None \<Rightarrow> None
           | Some os \<Rightarrow> expand k m (hsadd (t # hsinter hs hcl) os @ rest)))"
  using assms
  by (simp add: expand_call_def split: option.splits)

lemma expand_call_one_parameter:
  assumes "m n = Some (Some [q], [q])" and "q \<noteq> ''#''"
  shows "expand_call k m n [x] = expand k m x"
  using assms
  by (simp add: expand_call_def bind_def split: option.splits)

text \<open>
  Complete replacement on small texts: a second scan is not made of a finished result
  (\<open>g\<close> stays), a name met during its own replacement stays hidden afterwards, a wrong
  number of arguments has no result, a function-like name without parenthesis is left
  alone, and nested invocations in an argument are replaced.
\<close>

lemma expand_text_second_scan:
  "expand_text 3 ''g EMPTY ()'' [''g'' \<mapsto> (Some [], [''1'']), ''EMPTY'' \<mapsto> (None, [])]
     = Some [''g'', ''('', '')'']"
  by code_simp

lemma expand_text_hidden_name:
  "expand_text 3 ''f(1)(2)'' [''f'' \<mapsto> (Some [''x''], [''x'', ''f''])]
     = Some [''1'', ''f'', ''('', ''2'', '')'']"
  by code_simp

lemma expand_text_wrong_arity:
  "expand_text 3 ''ATOMIC_VAR_INIT(1, 2)'' [''ATOMIC_VAR_INIT'' \<mapsto> (Some [''x''], [''x''])]
     = None"
  by code_simp

lemma expand_text_no_parenthesis:
  "expand_text 3 ''ATOMIC_VAR_INIT + 1'' [''ATOMIC_VAR_INIT'' \<mapsto> (Some [''x''], [''x''])]
     = Some [''ATOMIC_VAR_INIT'', ''+'', ''1'']"
  by code_simp

lemma expand_text_nested:
  "expand_text 3 ''ATOMIC_VAR_INIT(ATOMIC_VAR_INIT(0) + f(1, 2))''
     [''ATOMIC_VAR_INIT'' \<mapsto> (Some [''x''], [''x''])]
     = Some [''0'', ''+'', ''f'', ''('', ''1'', '','', ''2'', '')'']"
  by code_simp

lemma tokens_call_alias:
  "tokens ''ATOMIC_VAR_INIT(atomic_int_least16_t)''
     = [''ATOMIC_VAR_INIT'', ''('', ''atomic_int_least16_t'', '')'']"
  by code_simp

lemma tokens_call_zero:
  "tokens ''ATOMIC_VAR_INIT(0)'' = [''ATOMIC_VAR_INIT'', ''('', ''0'', '')'']"
  by code_simp

text \<open>
  The invocation of a macro whose replacement list is its single parameter, on a single
  argument: the argument is completely macro-replaced, and the result is scanned again
  with the tokens that follow.
\<close>

lemma expand_identity_macro:
  assumes "m n = Some (Some [q], [q])" and "q \<noteq> ''#''" and "single_argument a"
  shows "expand (Suc k) m (plain (n # ''('' # a @ ['')'']) @ rest) =
     (case expand k m (plain a) of
        None \<Rightarrow> None
      | Some a' \<Rightarrow> expand k m (hsadd [n] a' @ rest))"
proof -
  have "actuals 0 [] [] (plain a @ ('')'', []) # rest) = Some ([plain a], [], rest)"
    using assms(3) actuals_scan [of 0 a 0 "[]" "[]" "('')'', []) # rest"]
    by (simp add: single_argument_def)
  then show ?thesis
    using assms(1,2) expand_invocation [of m n "[q]" "[q]" "[]" k "[]" "plain a @ ('')'', []) # rest"]
      expand_call_one_parameter [of m n q k "plain a"]
    by (simp add: plain_def hsinter_def split: option.splits)
qed

lemma texts_hsadd_plain: "texts (hsadd hs (plain a)) = a"
  by (simp add: texts_def hsadd_def plain_def comp_def)

lemma expand_plain_macro_free:
  "\<forall>t \<in> set a. m t = None \<Longrightarrow> expand k m (hsadd hs (plain a)) = Some (hsadd hs (plain a))"
  by (rule expand_macro_free) (auto simp: hsadd_def plain_def)

section \<open>The claims\<close>

text \<open>
  C1, as stated, fails on the bindgen header: it has no \<open>#undef\<close>, so the macros it
  defines before its inclusion are still defined after it. With no macro defined on
  entry and a \<open>riot-headers.h\<close> that leaves the macro table alone, \<open>UINT16_MAX\<close> and
  \<open>UINT32_MAX\<close> are defined when the header has been processed.
\<close>

theorem bindgen_limits_not_restored:
  "\<not> spec_restored plain_headers riot_bindgen_h no_macros
   \<and> halted (preprocess plain_headers riot_bindgen_h no_macros) = None
   \<and> macros (preprocess plain_headers riot_bindgen_h no_macros) ''UINT16_MAX''
       = Some (None, [''0xffff''])
   \<and> macros (preprocess plain_headers riot_bindgen_h no_macros) ''UINT32_MAX''
       = Some (None, [''0xffffffff''])"
  using run_riot_bindgen_h [OF refl, of plain_headers no_macros]
  by (simp add: spec_restored_def directives_riot_bindgen_h plain_headers_def)

text \<open>
  C1, amended. Restoration is what the c2rust header does around \<open>rmutex.h\<close>, and only
  that: once that inclusion has completed and the \<open>#undef\<close> lines after it have been
  processed (lines 1 to 17), every macro the header had defined is no longer defined.
  The bindgen header restores nothing: it has no \<open>#undef\<close>, \<open>UINT16_MAX\<close> and
  \<open>UINT32_MAX\<close> are defined when \<open>riot-headers.h\<close> is entered, and the macro table that
  \<open>riot-headers.h\<close> leaves is the final one (the table it was entered with, if the
  inclusion fails).
\<close>

theorem restoration_only_around_rmutex:
  assumes "halted (preprocess H (take 17 riot_c2rust_h) e) = None"
  shows "spec_restored H (take 17 riot_c2rust_h) e
       \<and> undefined_names (header_directives riot_bindgen_h) = []
       \<and> (\<exists>m. seen_by (Quote, ''riot-headers.h'') (preprocess H' riot_bindgen_h e') = [m]
            \<and> m ''UINT16_MAX'' \<noteq> None \<and> m ''UINT32_MAX'' \<noteq> None
            \<and> macros (preprocess H' riot_bindgen_h e')
                = (case H' (Quote, ''riot-headers.h'') m of None \<Rightarrow> m | Some m' \<Rightarrow> m'))"
proof -
  have a: "spec_restored H (take 17 riot_c2rust_h) e"
    using assms run_riot_c2rust_h_bracket [OF refl, of H e]
    by (simp add: spec_restored_def directives_bracket directives_riot_c2rust_h
        split: option.splits)
  have b: "undefined_names (header_directives riot_bindgen_h) = []"
    by (simp add: directives_riot_bindgen_h)
  have c: "\<exists>m. seen_by (Quote, ''riot-headers.h'') (preprocess H' riot_bindgen_h e') = [m]
            \<and> m ''UINT16_MAX'' \<noteq> None \<and> m ''UINT32_MAX'' \<noteq> None
            \<and> macros (preprocess H' riot_bindgen_h e')
                = (case H' (Quote, ''riot-headers.h'') m of None \<Rightarrow> m | Some m' \<Rightarrow> m')"
    using run_riot_bindgen_h [OF refl, of H' e']
    by (simp add: seen_by_def split: option.splits)
  show ?thesis
    using a b c by blast
qed

theorem restoration_only_around_rmutex_witness:
  "halted (preprocess plain_headers (take 17 riot_c2rust_h) no_macros) = None
   \<and> spec_restored plain_headers (take 17 riot_c2rust_h) no_macros
   \<and> macros (preprocess plain_headers riot_bindgen_h no_macros) ''UINT16_MAX'' \<noteq> None"
proof -
  have h: "halted (preprocess plain_headers (take 17 riot_c2rust_h) no_macros) = None"
    by (rule plain_headers_bracket_complete)
  note t = restoration_only_around_rmutex [OF h, of plain_headers no_macros]
  from t obtain m
    where "m ''UINT16_MAX'' \<noteq> None"
      and "macros (preprocess plain_headers riot_bindgen_h no_macros)
                = (case plain_headers (Quote, ''riot-headers.h'') m of
                     None \<Rightarrow> m | Some m' \<Rightarrow> m')"
    by blast
  then have "macros (preprocess plain_headers riot_bindgen_h no_macros) ''UINT16_MAX'' \<noteq> None"
    by (simp add: plain_headers_def)
  with h t show ?thesis
    by blast
qed

text \<open>
  C2, as stated, fails in its second half: the five macros are undefined after the
  inclusion, but that is their prior state only if they were undefined before. The
  header defines and undefines them without saving anything, so a name that is defined
  when the header is entered ends undefined. With \<open>_STDATOMIC_H\<close> defined on entry,
  it is not defined after line 17.
\<close>

theorem bracket_forgets_prior_definition:
  "halted (preprocess plain_headers (take 17 riot_c2rust_h) stdatomic_included) = None
   \<and> stdatomic_included ''_STDATOMIC_H'' = Some (None, [])
   \<and> macros (preprocess plain_headers (take 17 riot_c2rust_h) stdatomic_included)
        ''_STDATOMIC_H'' = None
   \<and> \<not> spec_prior_state plain_headers (take 17 riot_c2rust_h) stdatomic_included
         [''__CLANG_STDATOMIC_H'', ''_STDATOMIC_H'', ''_STDATOMIC_H_'',
          ''ATOMIC_VAR_INIT'', ''atomic_int_least16_t'']"
  using run_riot_c2rust_h_bracket [OF refl, of plain_headers stdatomic_included]
  by (simp add: plain_headers_def stdatomic_included_def spec_prior_state_def)

text \<open>
  C2, amended. In the c2rust header the five macros defined before the inclusion of
  \<open>rmutex.h\<close> (lines 7 to 11) are \<open>__CLANG_STDATOMIC_H\<close>, \<open>_STDATOMIC_H\<close>,
  \<open>_STDATOMIC_H_\<close>, \<open>ATOMIC_VAR_INIT\<close> and \<open>atomic_int_least16_t\<close>; \<open>rmutex.h\<close> is entered
  with all five defined. Once the inclusion has completed and the \<open>#undef\<close> lines that
  follow it (lines 13 to 17) have been processed, each of the five is undefined,
  whatever \<open>rmutex.h\<close> did. For each name this is the state it had on entry exactly when
  it was undefined on entry.
\<close>

theorem bracket_macros_undefined_after_rmutex:
  assumes "halted (preprocess H (take 17 riot_c2rust_h) e) = None"
  shows "defined_names (header_directives (take 11 riot_c2rust_h)) =
           [''__CLANG_STDATOMIC_H'', ''_STDATOMIC_H'', ''_STDATOMIC_H_'',
            ''ATOMIC_VAR_INIT'', ''atomic_int_least16_t'']
       \<and> (\<exists>m. seen_by (Angle, ''rmutex.h'') (preprocess H (take 17 riot_c2rust_h) e) = [m]
            \<and> (\<forall>n \<in> set [''__CLANG_STDATOMIC_H'', ''_STDATOMIC_H'', ''_STDATOMIC_H_'',
                           ''ATOMIC_VAR_INIT'', ''atomic_int_least16_t'']. m n \<noteq> None))
       \<and> (\<forall>n \<in> set [''__CLANG_STDATOMIC_H'', ''_STDATOMIC_H'', ''_STDATOMIC_H_'',
                      ''ATOMIC_VAR_INIT'', ''atomic_int_least16_t''].
             macros (preprocess H (take 17 riot_c2rust_h) e) n = None
           \<and> (macros (preprocess H (take 17 riot_c2rust_h) e) n = e n \<longleftrightarrow> e n = None))"
proof -
  have a: "\<exists>m. seen_by (Angle, ''rmutex.h'') (preprocess H (take 17 riot_c2rust_h) e) = [m]
            \<and> (\<forall>n \<in> set [''__CLANG_STDATOMIC_H'', ''_STDATOMIC_H'', ''_STDATOMIC_H_'',
                           ''ATOMIC_VAR_INIT'', ''atomic_int_least16_t'']. m n \<noteq> None)"
    using run_riot_c2rust_h_bracket [OF refl, of H e]
    by (simp add: seen_by_def split: option.splits)
  have b: "\<forall>n \<in> set [''__CLANG_STDATOMIC_H'', ''_STDATOMIC_H'', ''_STDATOMIC_H_'',
                    ''ATOMIC_VAR_INIT'', ''atomic_int_least16_t''].
          macros (preprocess H (take 17 riot_c2rust_h) e) n = None"
    using assms run_riot_c2rust_h_bracket [OF refl, of H e]
    by (simp split: option.splits)
  then have c: "\<forall>n \<in> set [''__CLANG_STDATOMIC_H'', ''_STDATOMIC_H'', ''_STDATOMIC_H_'',
                    ''ATOMIC_VAR_INIT'', ''atomic_int_least16_t''].
          (macros (preprocess H (take 17 riot_c2rust_h) e) n = e n \<longleftrightarrow> e n = None)"
    by (metis (no_types))
  show ?thesis
    using a b c by (simp add: directives_bracket_defines)
qed

theorem bracket_macros_undefined_after_rmutex_witness:
  "halted (preprocess plain_headers (take 17 riot_c2rust_h) stdatomic_included) = None
   \<and> macros (preprocess plain_headers (take 17 riot_c2rust_h) stdatomic_included)
        ''__CLANG_STDATOMIC_H'' = None
   \<and> macros (preprocess plain_headers (take 17 riot_c2rust_h) stdatomic_included)
        ''_STDATOMIC_H'' = None
   \<and> macros (preprocess plain_headers (take 17 riot_c2rust_h) stdatomic_included)
        ''_STDATOMIC_H_'' = None
   \<and> macros (preprocess plain_headers (take 17 riot_c2rust_h) stdatomic_included)
        ''ATOMIC_VAR_INIT'' = None
   \<and> macros (preprocess plain_headers (take 17 riot_c2rust_h) stdatomic_included)
        ''atomic_int_least16_t'' = None
   \<and> stdatomic_included ''_STDATOMIC_H_'' = None
   \<and> macros (preprocess plain_headers (take 17 riot_c2rust_h) stdatomic_included)
        ''_STDATOMIC_H_'' = stdatomic_included ''_STDATOMIC_H_''
   \<and> stdatomic_included ''_STDATOMIC_H'' \<noteq> None
   \<and> macros (preprocess plain_headers (take 17 riot_c2rust_h) stdatomic_included)
        ''_STDATOMIC_H'' \<noteq> stdatomic_included ''_STDATOMIC_H''"
proof -
  have h: "halted (preprocess plain_headers (take 17 riot_c2rust_h) stdatomic_included) = None"
    by (rule plain_headers_bracket_complete)
  have e: "stdatomic_included ''_STDATOMIC_H_'' = None"
      "stdatomic_included ''_STDATOMIC_H'' \<noteq> None"
    by (simp_all add: stdatomic_included_def)
  note t = bracket_macros_undefined_after_rmutex [OF h]
  from t have u:
      "macros (preprocess plain_headers (take 17 riot_c2rust_h) stdatomic_included)
        ''__CLANG_STDATOMIC_H'' = None"
      "macros (preprocess plain_headers (take 17 riot_c2rust_h) stdatomic_included)
        ''_STDATOMIC_H'' = None"
      "macros (preprocess plain_headers (take 17 riot_c2rust_h) stdatomic_included)
        ''_STDATOMIC_H_'' = None"
      "macros (preprocess plain_headers (take 17 riot_c2rust_h) stdatomic_included)
        ''ATOMIC_VAR_INIT'' = None"
      "macros (preprocess plain_headers (take 17 riot_c2rust_h) stdatomic_included)
        ''atomic_int_least16_t'' = None"
    by simp_all
  show ?thesis
    using h e u by auto
qed

text \<open>
  C3. The integer-limit macros that the bindgen header binds before it includes
  \<open>riot-headers.h\<close> carry the values of the standard library: when \<open>riot-headers.h\<close> is
  entered, \<open>UINT16_MAX\<close> is the constant \<open>0xffff\<close>, of value \<open>2^16 - 1 = 65535\<close>, the
  largest 16-bit unsigned value, and \<open>UINT32_MAX\<close> is the constant \<open>0xffffffff\<close>, of
  value \<open>2^32 - 1 = 4294967295\<close>, the largest 32-bit unsigned value. This holds for every
  macro table on entry and whatever the included headers do.
\<close>

theorem bindgen_limits_seeded:
  "\<exists>m. seen_by (Quote, ''riot-headers.h'') (preprocess H riot_bindgen_h e) = [m]
      \<and> m ''UINT16_MAX'' = Some (None, [''0xffff''])
      \<and> m ''UINT32_MAX'' = Some (None, [''0xffffffff''])
      \<and> macro_value m ''UINT16_MAX'' = Some (2 ^ 16 - 1)
      \<and> macro_value m ''UINT16_MAX'' = Some 65535
      \<and> macro_value m ''UINT16_MAX'' = Some (unat (- 1 :: 16 word))
      \<and> macro_value m ''UINT32_MAX'' = Some (2 ^ 32 - 1)
      \<and> macro_value m ''UINT32_MAX'' = Some 4294967295
      \<and> macro_value m ''UINT32_MAX'' = Some (unat (- 1 :: 32 word))"
proof -
  let ?m = "e(''UINT16_MAX'' \<mapsto> (None, [''0xffff'']),
              ''UINT32_MAX'' \<mapsto> (None, [''0xffffffff'']))"
  have seen: "seen_by (Quote, ''riot-headers.h'') (preprocess H riot_bindgen_h e) = [?m]"
    using run_riot_bindgen_h [OF refl, of H e]
    by (simp add: seen_by_def split: option.splits)
  have v16: "macro_value ?m ''UINT16_MAX'' = Some 65535"
    by (simp add: macro_value_def expand_object_def int_constant_0xffff
        del: int_constant.simps)
  have v32: "macro_value ?m ''UINT32_MAX'' = Some 4294967295"
    by (simp add: macro_value_def expand_object_def int_constant_0xffffffff
        del: int_constant.simps)
  show ?thesis
    using seen v16 v32 by (simp add: unat_minus_1_16 unat_minus_1_32)
qed

text \<open>
  C4. In the c2rust header each of the three include guards of \<open>stdatomic.h\<close>
  (\<open>__CLANG_STDATOMIC_H\<close> for clang, \<open>_STDATOMIC_H\<close> for GCC, \<open>_STDATOMIC_H_\<close> for
  newlib) is defined when \<open>rmutex.h\<close> is entered, so that a header protected by that
  guard is skipped there, whatever its contents; and it is undefined whenever
  \<open>riot-headers.h\<close> is entered, so that such a header has its contents processed there.
\<close>

theorem stdatomic_guards_toggled:
  "\<forall>g \<in> set [''__CLANG_STDATOMIC_H'', ''_STDATOMIC_H'', ''_STDATOMIC_H_''].
     (\<exists>m. seen_by (Angle, ''rmutex.h'') (preprocess H riot_c2rust_h e) = [m]
          \<and> m g = Some (None, [])
          \<and> (\<forall>contents. include_guarded g contents m = Some m))
     \<and> (\<forall>m \<in> set (seen_by (Quote, ''riot-headers.h'') (preprocess H riot_c2rust_h e)).
          m g = None
          \<and> (\<forall>contents. include_guarded g contents m = contents (m(g \<mapsto> (None, [])))))"
  using entered_riot_c2rust_h [OF refl, of H e]
  by (simp add: seen_by_def include_guarded_def split: option.splits)

theorem stdatomic_guards_toggled_witness:
  "map (\<lambda>m. m ''_STDATOMIC_H'')
     (seen_by (Angle, ''rmutex.h'') (preprocess plain_headers riot_c2rust_h no_macros))
     = [Some (None, [])]
   \<and> map (\<lambda>m. include_guarded ''_STDATOMIC_H'' (plain_headers (Angle, ''stdatomic.h'')) m
               = Some m)
     (seen_by (Angle, ''rmutex.h'') (preprocess plain_headers riot_c2rust_h no_macros))
     = [True]
   \<and> length (seen_by (Quote, ''riot-headers.h'')
        (preprocess plain_headers riot_c2rust_h no_macros)) = 1
   \<and> map (\<lambda>m. m ''_STDATOMIC_H'')
        (seen_by (Quote, ''riot-headers.h'')
          (preprocess plain_headers riot_c2rust_h no_macros)) = [None]
   \<and> map (\<lambda>m. include_guarded ''_STDATOMIC_H'' (plain_headers (Angle, ''stdatomic.h'')) m
               = Some (m(''_STDATOMIC_H'' \<mapsto> (None, []))))
        (seen_by (Quote, ''riot-headers.h'')
          (preprocess plain_headers riot_c2rust_h no_macros)) = [True]"
proof -
  have g: "''_STDATOMIC_H'' \<in> set [''__CLANG_STDATOMIC_H'', ''_STDATOMIC_H'', ''_STDATOMIC_H_'']"
    by simp
  note t = stdatomic_guards_toggled [of plain_headers no_macros, rule_format, OF g]
  obtain m where m: "seen_by (Quote, ''riot-headers.h'')
        (preprocess plain_headers riot_c2rust_h no_macros) = [m]"
    using completed_riot_c2rust_h [OF plain_headers_complete, of no_macros] by blast
  from t obtain m1 where m1: "seen_by (Angle, ''rmutex.h'')
        (preprocess plain_headers riot_c2rust_h no_macros) = [m1]"
      "m1 ''_STDATOMIC_H'' = Some (None, [])"
      "\<forall>contents. include_guarded ''_STDATOMIC_H'' contents m1 = Some m1"
    by blast
  from t m have "m ''_STDATOMIC_H'' = None"
      "\<forall>contents. include_guarded ''_STDATOMIC_H'' contents m
         = contents (m(''_STDATOMIC_H'' \<mapsto> (None, [])))"
    by simp_all
  with m m1 show ?thesis
    by (simp add: plain_headers_def)
qed

text \<open>
  C5. The c2rust header defines \<open>IS_C2RUST\<close> in its last directive but one, directly
  before its inclusion of \<open>riot-headers.h\<close>, so \<open>riot-headers.h\<close> is always entered from
  it with \<open>IS_C2RUST\<close> defined. The bindgen header never defines \<open>IS_C2RUST\<close>: it enters
  \<open>riot-headers.h\<close> with that name as it was when the header itself was entered. So,
  for a binding generator that does not define the marker beforehand, the marker is
  defined in \<open>riot-headers.h\<close> when the translator processes it and undefined when the
  binding generator does.
\<close>

theorem IS_C2RUST_marks_translator:
  "drop 11 (header_directives riot_c2rust_h)
     = [Define ''IS_C2RUST'' None [], Include Quote ''riot-headers.h'']
   \<and> (\<forall>m \<in> set (seen_by (Quote, ''riot-headers.h'') (preprocess H riot_c2rust_h e)).
        m ''IS_C2RUST'' = Some (None, []))
   \<and> ''IS_C2RUST'' \<notin> set (defined_names (header_directives riot_bindgen_h))
   \<and> (\<exists>m. seen_by (Quote, ''riot-headers.h'') (preprocess H' riot_bindgen_h e') = [m]
        \<and> m ''IS_C2RUST'' = e' ''IS_C2RUST'')
   \<and> (e' ''IS_C2RUST'' = None \<longrightarrow>
        (\<forall>m \<in> set (seen_by (Quote, ''riot-headers.h'') (preprocess H riot_c2rust_h e)).
         \<forall>m' \<in> set (seen_by (Quote, ''riot-headers.h'') (preprocess H' riot_bindgen_h e')).
           m ''IS_C2RUST'' \<noteq> None \<and> m' ''IS_C2RUST'' = None))"
proof -
  have a: "drop 11 (header_directives riot_c2rust_h)
     = [Define ''IS_C2RUST'' None [], Include Quote ''riot-headers.h'']"
    by (simp add: directives_riot_c2rust_h)
  have b: "\<forall>m \<in> set (seen_by (Quote, ''riot-headers.h'') (preprocess H riot_c2rust_h e)).
        m ''IS_C2RUST'' = Some (None, [])"
    using entered_riot_c2rust_h [OF refl, of H e]
    by (simp add: seen_by_def split: option.splits)
  have c: "''IS_C2RUST'' \<notin> set (defined_names (header_directives riot_bindgen_h))"
    by (simp add: directives_riot_bindgen_h)
  have d: "\<exists>m. seen_by (Quote, ''riot-headers.h'') (preprocess H' riot_bindgen_h e') = [m]
        \<and> m ''IS_C2RUST'' = e' ''IS_C2RUST''"
    using run_riot_bindgen_h [OF refl, of H' e']
    by (simp add: seen_by_def split: option.splits)
  from b d have f: "e' ''IS_C2RUST'' = None \<longrightarrow>
        (\<forall>m \<in> set (seen_by (Quote, ''riot-headers.h'') (preprocess H riot_c2rust_h e)).
         \<forall>m' \<in> set (seen_by (Quote, ''riot-headers.h'') (preprocess H' riot_bindgen_h e')).
           m ''IS_C2RUST'' \<noteq> None \<and> m' ''IS_C2RUST'' = None)"
    by auto
  show ?thesis
    using a b c d f by blast
qed

theorem IS_C2RUST_marks_translator_witness:
  "no_macros ''IS_C2RUST'' = None
   \<and> map (\<lambda>m. m ''IS_C2RUST'')
        (seen_by (Quote, ''riot-headers.h'')
          (preprocess plain_headers riot_c2rust_h no_macros)) = [Some (None, [])]
   \<and> map (\<lambda>m. m ''IS_C2RUST'')
        (seen_by (Quote, ''riot-headers.h'')
          (preprocess plain_headers riot_bindgen_h no_macros)) = [None]"
proof -
  note t = IS_C2RUST_marks_translator [of plain_headers no_macros plain_headers no_macros]
  have n: "no_macros ''IS_C2RUST'' = None"
    by (simp add: no_macros_def)
  obtain m where m: "seen_by (Quote, ''riot-headers.h'')
        (preprocess plain_headers riot_c2rust_h no_macros) = [m]"
    using completed_riot_c2rust_h [OF plain_headers_complete, of no_macros] by blast
  from t obtain m' where m': "seen_by (Quote, ''riot-headers.h'')
        (preprocess plain_headers riot_bindgen_h no_macros) = [m']"
      "m' ''IS_C2RUST'' = no_macros ''IS_C2RUST''"
    by blast
  from t m have "m ''IS_C2RUST'' = Some (None, [])"
    by simp
  with n m m' show ?thesis
    by simp
qed

text \<open>
  C6. In the c2rust header \<open>atomic_int_least16_t\<close> is an object-like macro with the
  replacement list \<open>int_least16_t\<close> exactly while \<open>rmutex.h\<close> is included: the header
  does not touch the name before line 11, binds it there, enters \<open>rmutex.h\<close> with that
  binding in the next line, removes it in the block of \<open>#undef\<close> lines that follows the
  inclusion (lines 13 to 17), and enters \<open>riot-headers.h\<close> without it.
\<close>

theorem atomic_int_least16_t_alias_scoped:
  "macros (preprocess H (take 10 riot_c2rust_h) e) ''atomic_int_least16_t''
     = e ''atomic_int_least16_t''
   \<and> macros (preprocess H (take 11 riot_c2rust_h) e) ''atomic_int_least16_t''
     = Some (None, [''int_least16_t''])
   \<and> (\<exists>m. seen_by (Angle, ''rmutex.h'') (preprocess H riot_c2rust_h e) = [m]
        \<and> m ''atomic_int_least16_t'' = Some (None, [''int_least16_t''])
        \<and> expand_object m ''atomic_int_least16_t'' = Some [''int_least16_t''])
   \<and> take 2 (drop 4 (header_directives riot_c2rust_h))
     = [Define ''atomic_int_least16_t'' None [''int_least16_t''], Include Angle ''rmutex.h'']
   \<and> list_all is_undef (take 5 (drop 6 (header_directives riot_c2rust_h)))
   \<and> ''atomic_int_least16_t''
       \<in> set (undefined_names (take 5 (drop 6 (header_directives riot_c2rust_h))))
   \<and> (halted (preprocess H (take 17 riot_c2rust_h) e) = None \<longrightarrow>
        macros (preprocess H (take 17 riot_c2rust_h) e) ''atomic_int_least16_t'' = None)
   \<and> (\<forall>m \<in> set (seen_by (Quote, ''riot-headers.h'') (preprocess H riot_c2rust_h e)).
        m ''atomic_int_least16_t'' = None
        \<and> expand_object m ''atomic_int_least16_t'' = None)"
proof -
  have a: "macros (preprocess H (take 10 riot_c2rust_h) e) ''atomic_int_least16_t''
     = e ''atomic_int_least16_t''"
    by (simp add: preprocess_def take_map [symmetric] parse_riot_c2rust_h start_def)
  have b: "macros (preprocess H (take 11 riot_c2rust_h) e) ''atomic_int_least16_t''
     = Some (None, [''int_least16_t''])"
    by (simp add: preprocess_def take_map [symmetric] parse_riot_c2rust_h start_def)
  have c: "\<exists>m. seen_by (Angle, ''rmutex.h'') (preprocess H riot_c2rust_h e) = [m]
        \<and> m ''atomic_int_least16_t'' = Some (None, [''int_least16_t''])
        \<and> expand_object m ''atomic_int_least16_t'' = Some [''int_least16_t'']"
    using entered_riot_c2rust_h [OF refl, of H e]
    by (simp add: seen_by_def expand_object_def split: option.splits)
  have d: "take 2 (drop 4 (header_directives riot_c2rust_h))
     = [Define ''atomic_int_least16_t'' None [''int_least16_t''], Include Angle ''rmutex.h'']
   \<and> list_all is_undef (take 5 (drop 6 (header_directives riot_c2rust_h)))
   \<and> ''atomic_int_least16_t''
       \<in> set (undefined_names (take 5 (drop 6 (header_directives riot_c2rust_h))))"
    by (simp add: directives_riot_c2rust_h)
  have f: "halted (preprocess H (take 17 riot_c2rust_h) e) = None \<longrightarrow>
        macros (preprocess H (take 17 riot_c2rust_h) e) ''atomic_int_least16_t'' = None"
    using run_riot_c2rust_h_bracket [OF refl, of H e]
    by (simp split: option.splits)
  have "\<forall>m \<in> set (seen_by (Quote, ''riot-headers.h'') (preprocess H riot_c2rust_h e)).
        m ''atomic_int_least16_t'' = None"
    using entered_riot_c2rust_h [OF refl, of H e]
    by (simp add: seen_by_def split: option.splits)
  then have g: "\<forall>m \<in> set (seen_by (Quote, ''riot-headers.h'') (preprocess H riot_c2rust_h e)).
        m ''atomic_int_least16_t'' = None
        \<and> expand_object m ''atomic_int_least16_t'' = None"
    by (auto simp: expand_object_def)
  show ?thesis
    using a b c d f g by blast
qed

theorem atomic_int_least16_t_alias_scoped_witness:
  "halted (preprocess plain_headers (take 17 riot_c2rust_h) no_macros) = None
   \<and> macros (preprocess plain_headers (take 17 riot_c2rust_h) no_macros)
        ''atomic_int_least16_t'' = None
   \<and> map (\<lambda>m. expand_object m ''atomic_int_least16_t'')
        (seen_by (Angle, ''rmutex.h'') (preprocess plain_headers riot_c2rust_h no_macros))
       = [Some [''int_least16_t'']]
   \<and> length (seen_by (Quote, ''riot-headers.h'')
        (preprocess plain_headers riot_c2rust_h no_macros)) = 1
   \<and> map (\<lambda>m. expand_object m ''atomic_int_least16_t'')
        (seen_by (Quote, ''riot-headers.h'')
          (preprocess plain_headers riot_c2rust_h no_macros)) = [None]"
proof -
  note t = atomic_int_least16_t_alias_scoped [of plain_headers no_macros]
  have h: "halted (preprocess plain_headers (take 17 riot_c2rust_h) no_macros) = None"
    by (rule plain_headers_bracket_complete)
  obtain m where m: "seen_by (Quote, ''riot-headers.h'')
        (preprocess plain_headers riot_c2rust_h no_macros) = [m]"
    using completed_riot_c2rust_h [OF plain_headers_complete, of no_macros] by blast
  from t obtain m1 where m1: "seen_by (Angle, ''rmutex.h'')
        (preprocess plain_headers riot_c2rust_h no_macros) = [m1]"
      "expand_object m1 ''atomic_int_least16_t'' = Some [''int_least16_t'']"
    by blast
  from t m have "expand_object m ''atomic_int_least16_t'' = None"
    by simp
  moreover from t h
  have "macros (preprocess plain_headers (take 17 riot_c2rust_h) no_macros)
        ''atomic_int_least16_t'' = None"
    by blast
  ultimately show ?thesis
    using h m m1 by simp
qed

text \<open>
  C7, as stated, fails on the c2rust header: it is not macro definitions, one inclusion
  and macro cleanup, because after the cleanup it defines one more macro and makes a
  second inclusion.
\<close>

theorem c2rust_header_not_single_bracket:
  "\<not> spec_single_bracket (header_directives riot_c2rust_h)
   \<and> included_headers (header_directives riot_c2rust_h)
       = [(Angle, ''rmutex.h''), (Quote, ''riot-headers.h'')]"
  by (simp add: spec_single_bracket_def directives_riot_c2rust_h)

text \<open>
  C7, amended. Every line of either header is blank, a comment, or an unconditional
  \<open>#define\<close>, \<open>#undef\<close> or \<open>#include\<close>. The bindgen header is two macro definitions
  followed by one inclusion, with no cleanup. The c2rust header is five macro
  definitions, the inclusion of \<open>rmutex.h\<close> and the undefinition of the same five
  macros, followed by the definition of \<open>IS_C2RUST\<close> and a second inclusion, of
  \<open>riot-headers.h\<close>.
\<close>

theorem headers_shape:
  "list_all is_supported (map parse_line riot_bindgen_h)
   \<and> list_all is_supported (map parse_line riot_c2rust_h)
   \<and> spec_single_bracket (header_directives riot_bindgen_h)
   \<and> defined_names (header_directives riot_bindgen_h) = [''UINT16_MAX'', ''UINT32_MAX'']
   \<and> undefined_names (header_directives riot_bindgen_h) = []
   \<and> included_headers (header_directives riot_bindgen_h) = [(Quote, ''riot-headers.h'')]
   \<and> spec_single_bracket (take 11 (header_directives riot_c2rust_h))
   \<and> defined_names (take 11 (header_directives riot_c2rust_h))
       = [''__CLANG_STDATOMIC_H'', ''_STDATOMIC_H'', ''_STDATOMIC_H_'',
          ''ATOMIC_VAR_INIT'', ''atomic_int_least16_t'']
   \<and> included_headers (take 11 (header_directives riot_c2rust_h)) = [(Angle, ''rmutex.h'')]
   \<and> set (undefined_names (take 11 (header_directives riot_c2rust_h)))
       = set (defined_names (take 11 (header_directives riot_c2rust_h)))
   \<and> drop 11 (header_directives riot_c2rust_h)
       = [Define ''IS_C2RUST'' None [], Include Quote ''riot-headers.h'']"
proof -
  have a: "list_all is_supported (map parse_line riot_bindgen_h)"
    by (simp add: parse_riot_bindgen_h)
  have b: "list_all is_supported (map parse_line riot_c2rust_h)"
    by (simp add: parse_riot_c2rust_h)
  have c: "spec_single_bracket (header_directives riot_bindgen_h)
   \<and> defined_names (header_directives riot_bindgen_h) = [''UINT16_MAX'', ''UINT32_MAX'']
   \<and> undefined_names (header_directives riot_bindgen_h) = []
   \<and> included_headers (header_directives riot_bindgen_h) = [(Quote, ''riot-headers.h'')]"
    by (simp add: spec_single_bracket_def directives_riot_bindgen_h)
  have d: "spec_single_bracket (take 11 (header_directives riot_c2rust_h))
   \<and> defined_names (take 11 (header_directives riot_c2rust_h))
       = [''__CLANG_STDATOMIC_H'', ''_STDATOMIC_H'', ''_STDATOMIC_H_'',
          ''ATOMIC_VAR_INIT'', ''atomic_int_least16_t'']
   \<and> included_headers (take 11 (header_directives riot_c2rust_h)) = [(Angle, ''rmutex.h'')]
   \<and> drop 11 (header_directives riot_c2rust_h)
       = [Define ''IS_C2RUST'' None [], Include Quote ''riot-headers.h'']"
    by (simp add: spec_single_bracket_def directives_riot_c2rust_h)
  have f: "set (undefined_names (take 11 (header_directives riot_c2rust_h)))
       = set (defined_names (take 11 (header_directives riot_c2rust_h)))"
    by (auto simp: directives_riot_c2rust_h)
  show ?thesis
    using a b c d f by blast
qed

text \<open>
  C8, as stated, fails for an argument that contains a macro name: the argument is
  macro-replaced before it takes the place of the parameter. In the macro table that
  \<open>rmutex.h\<close> is entered with, \<open>atomic_int_least16_t\<close> is itself a macro, and
  \<open>ATOMIC_VAR_INIT(atomic_int_least16_t)\<close> is replaced by \<open>int_least16_t\<close>, not by its
  argument.
\<close>

theorem ATOMIC_VAR_INIT_replaces_macro_argument:
  "map (replace_call 1 ''ATOMIC_VAR_INIT'' [[''atomic_int_least16_t'']])
     (seen_by (Angle, ''rmutex.h'') (preprocess plain_headers riot_c2rust_h no_macros))
     = [Some [''int_least16_t'']]
   \<and> map (expand_text 2 ''ATOMIC_VAR_INIT(atomic_int_least16_t)'')
     (seen_by (Angle, ''rmutex.h'') (preprocess plain_headers riot_c2rust_h no_macros))
     = [Some [''int_least16_t'']]"
proof -
  define m where "m = no_macros(''__CLANG_STDATOMIC_H'' \<mapsto> (None, []),
                  ''_STDATOMIC_H'' \<mapsto> (None, []),
                  ''_STDATOMIC_H_'' \<mapsto> (None, []),
                  ''ATOMIC_VAR_INIT'' \<mapsto> (Some [''x''], [''x'']),
                  ''atomic_int_least16_t'' \<mapsto> (None, [''int_least16_t'']))"
  have seen: "seen_by (Angle, ''rmutex.h'') (preprocess plain_headers riot_c2rust_h no_macros)
      = [m]"
    using entered_riot_c2rust_h [OF m_def, of plain_headers]
    by (simp add: seen_by_def split: option.splits)
  have f: "m ''ATOMIC_VAR_INIT'' = Some (Some [''x''], [''x''])"
      "m ''atomic_int_least16_t'' = Some (None, [''int_least16_t''])"
      "m ''int_least16_t'' = None"
    by (simp_all add: m_def no_macros_def)
  have arg: "expand 1 m (plain [''atomic_int_least16_t''])
      = Some [(''int_least16_t'', [''atomic_int_least16_t''])]"
    using f by (simp add: plain_def hsadd_def)
  have a: "replace_call 1 ''ATOMIC_VAR_INIT'' [[''atomic_int_least16_t'']] m
      = Some [''int_least16_t'']"
    using f(1) arg expand_call_one_parameter [of m "''ATOMIC_VAR_INIT''" "''x''" 1
        "plain [''atomic_int_least16_t'']"]
    by (simp add: replace_call_def texts_def)
  have "expand (Suc 1) m (plain (''ATOMIC_VAR_INIT'' # ''('' # [''atomic_int_least16_t''] @ ['')'']) @ [])
      = Some [(''int_least16_t'', [''ATOMIC_VAR_INIT'', ''atomic_int_least16_t''])]"
    using f arg
      expand_identity_macro [of m "''ATOMIC_VAR_INIT''" "''x''" "[''atomic_int_least16_t'']" 1 "[]"]
    by (simp add: single_argument_def hsadd_def)
  then have b: "expand_text 2 ''ATOMIC_VAR_INIT(atomic_int_least16_t)'' m
      = Some [''int_least16_t'']"
    by (simp add: expand_text_def tokens_call_alias texts_def numeral_2_eq_2)
  show ?thesis
    using seen a b by simp
qed

text \<open>
  C8, amended. While \<open>rmutex.h\<close> is included from the c2rust header, \<open>ATOMIC_VAR_INIT\<close>
  is the function-like macro with the one parameter \<open>x\<close> and the replacement list \<open>x\<close>.
  Its invocation on an argument is replaced by the complete macro replacement of that
  argument, which is then scanned again with the tokens that follow. For an argument
  that contains no macro name this is the argument itself: \<open>ATOMIC_VAR_INIT(x)\<close> expands
  to \<open>x\<close>.
\<close>

theorem ATOMIC_VAR_INIT_yields_expanded_argument:
  "\<exists>m. seen_by (Angle, ''rmutex.h'') (preprocess H riot_c2rust_h e) = [m]
      \<and> m ''ATOMIC_VAR_INIT'' = Some (Some [''x''], [''x''])
      \<and> (\<forall>k a. expand_call k m ''ATOMIC_VAR_INIT'' [a] = expand k m a)
      \<and> (\<forall>k a rest. single_argument a \<longrightarrow>
            expand (Suc k) m (plain (''ATOMIC_VAR_INIT'' # ''('' # a @ ['')'']) @ rest)
              = (case expand k m (plain a) of
                   None \<Rightarrow> None
                 | Some a' \<Rightarrow> expand k m (hsadd [''ATOMIC_VAR_INIT''] a' @ rest)))
      \<and> (\<forall>k a. (\<forall>t \<in> set a. m t = None) \<longrightarrow>
            replace_call k ''ATOMIC_VAR_INIT'' [a] m = Some a)
      \<and> (\<forall>k a. single_argument a \<and> (\<forall>t \<in> set a. m t = None) \<longrightarrow>
            map_option texts
              (expand (Suc k) m (plain (''ATOMIC_VAR_INIT'' # ''('' # a @ ['')''])))
              = Some a)"
proof -
  define m where "m = e(''__CLANG_STDATOMIC_H'' \<mapsto> (None, []),
                  ''_STDATOMIC_H'' \<mapsto> (None, []),
                  ''_STDATOMIC_H_'' \<mapsto> (None, []),
                  ''ATOMIC_VAR_INIT'' \<mapsto> (Some [''x''], [''x'']),
                  ''atomic_int_least16_t'' \<mapsto> (None, [''int_least16_t'']))"
  have seen: "seen_by (Angle, ''rmutex.h'') (preprocess H riot_c2rust_h e) = [m]"
    using entered_riot_c2rust_h [OF m_def, of H]
    by (simp add: seen_by_def split: option.splits)
  have f: "m ''ATOMIC_VAR_INIT'' = Some (Some [''x''], [''x''])"
    by (simp add: m_def)
  have c: "expand_call k m ''ATOMIC_VAR_INIT'' [a] = expand k m a" for k a
    using f by (simp add: expand_call_one_parameter)
  have i: "expand (Suc k) m (plain (''ATOMIC_VAR_INIT'' # ''('' # a @ ['')'']) @ rest)
              = (case expand k m (plain a) of
                   None \<Rightarrow> None
                 | Some a' \<Rightarrow> expand k m (hsadd [''ATOMIC_VAR_INIT''] a' @ rest))"
    if "single_argument a" for k a rest
    using f that by (simp add: expand_identity_macro)
  have free: "expand k m (hsadd hs (plain a)) = Some (hsadd hs (plain a))"
    if "\<forall>t \<in> set a. m t = None" for k hs a
    using that by (rule expand_plain_macro_free)
  have free0: "expand k m (plain a) = Some (plain a)"
    if "\<forall>t \<in> set a. m t = None" for k a
    using free [OF that, of k "[]"] by (simp add: hsadd_def plain_def)
  have r: "replace_call k ''ATOMIC_VAR_INIT'' [a] m = Some a"
    if "\<forall>t \<in> set a. m t = None" for k a
    using c [of k "plain a"] free0 [OF that, of k]
    by (simp add: replace_call_def texts_def plain_def comp_def)
  have t: "map_option texts
              (expand (Suc k) m (plain (''ATOMIC_VAR_INIT'' # ''('' # a @ ['')''])))
              = Some a"
    if "single_argument a \<and> (\<forall>t \<in> set a. m t = None)" for k a
  proof -
    from that have s: "single_argument a" and n: "\<forall>t \<in> set a. m t = None"
      by simp_all
    show ?thesis
      using i [OF s, of k "[]"] free0 [OF n, of k] free [OF n, of k "[''ATOMIC_VAR_INIT'']"]
      by (simp add: texts_hsadd_plain)
  qed
  show ?thesis
    using seen f c i r t by blast
qed

theorem ATOMIC_VAR_INIT_yields_expanded_argument_witness:
  "single_argument [''0'']
   \<and> map (replace_call 0 ''ATOMIC_VAR_INIT'' [[''0'']])
       (seen_by (Angle, ''rmutex.h'') (preprocess plain_headers riot_c2rust_h no_macros))
       = [Some [''0'']]
   \<and> map (expand_text 1 ''ATOMIC_VAR_INIT(0)'')
       (seen_by (Angle, ''rmutex.h'') (preprocess plain_headers riot_c2rust_h no_macros))
       = [Some [''0'']]"
proof -
  define m1 where "m1 = no_macros(''__CLANG_STDATOMIC_H'' \<mapsto> (None, []),
                  ''_STDATOMIC_H'' \<mapsto> (None, []),
                  ''_STDATOMIC_H_'' \<mapsto> (None, []),
                  ''ATOMIC_VAR_INIT'' \<mapsto> (Some [''x''], [''x'']),
                  ''atomic_int_least16_t'' \<mapsto> (None, [''int_least16_t'']))"
  have seen: "seen_by (Angle, ''rmutex.h'') (preprocess plain_headers riot_c2rust_h no_macros)
      = [m1]"
    using entered_riot_c2rust_h [OF m1_def, of plain_headers]
    by (simp add: seen_by_def split: option.splits)
  have s: "single_argument [''0'']"
    by (simp add: single_argument_def)
  have n: "\<forall>t \<in> set [''0'']. m1 t = None"
    by (simp add: m1_def no_macros_def)
  from ATOMIC_VAR_INIT_yields_expanded_argument [of plain_headers no_macros] seen
  have r: "\<forall>k a. (\<forall>t \<in> set a. m1 t = None) \<longrightarrow>
            replace_call k ''ATOMIC_VAR_INIT'' [a] m1 = Some a"
    and t: "\<forall>k a. single_argument a \<and> (\<forall>t \<in> set a. m1 t = None) \<longrightarrow>
            map_option texts
              (expand (Suc k) m1 (plain (''ATOMIC_VAR_INIT'' # ''('' # a @ ['')''])))
              = Some a"
    by simp_all
  from r n have a: "replace_call 0 ''ATOMIC_VAR_INIT'' [[''0'']] m1 = Some [''0'']"
    by blast
  from t s n have "map_option texts
      (expand (Suc 0) m1 (plain (''ATOMIC_VAR_INIT'' # ''('' # [''0''] @ ['')'']))) = Some [''0'']"
    by blast
  then have b: "expand_text 1 ''ATOMIC_VAR_INIT(0)'' m1 = Some [''0'']"
    by (simp add: expand_text_def tokens_call_zero)
  show ?thesis
    using s seen a b by simp
qed

text \<open>
  C9. The c2rust header defines \<open>IS_C2RUST\<close> and has no \<open>#undef\<close> for it. When the
  header has been processed to its end, \<open>IS_C2RUST\<close> is therefore still defined, provided
  \<open>riot-headers.h\<close>, the last thing the header includes, does not itself remove the
  definition it is entered with.
\<close>

theorem IS_C2RUST_persists:
  assumes "halted (preprocess H riot_c2rust_h e) = None"
    and "\<And>m m'. H (Quote, ''riot-headers.h'') m = Some m' \<Longrightarrow> m ''IS_C2RUST'' \<noteq> None
            \<Longrightarrow> m' ''IS_C2RUST'' \<noteq> None"
  shows "''IS_C2RUST'' \<in> set (defined_names (header_directives riot_c2rust_h))
       \<and> ''IS_C2RUST'' \<notin> set (undefined_names (header_directives riot_c2rust_h))
       \<and> macros (preprocess H riot_c2rust_h e) ''IS_C2RUST'' \<noteq> None"
proof -
  obtain m m3
    where "H (Quote, ''riot-headers.h'') (m(''IS_C2RUST'' \<mapsto> (None, []))) = Some m3"
      and "macros (preprocess H riot_c2rust_h e) = m3"
    using completed_riot_c2rust_h [OF assms(1)] by blast
  with assms(2) [of "m(''IS_C2RUST'' \<mapsto> (None, []))" m3]
  have "macros (preprocess H riot_c2rust_h e) ''IS_C2RUST'' \<noteq> None"
    by simp
  then show ?thesis
    by (simp add: directives_riot_c2rust_h)
qed

theorem IS_C2RUST_persists_witness:
  "halted (preprocess plain_headers riot_c2rust_h no_macros) = None
   \<and> macros (preprocess plain_headers riot_c2rust_h no_macros) ''IS_C2RUST'' \<noteq> None"
proof -
  have h: "halted (preprocess plain_headers riot_c2rust_h no_macros) = None"
    by (rule plain_headers_complete)
  have "''IS_C2RUST'' \<in> set (defined_names (header_directives riot_c2rust_h))
       \<and> ''IS_C2RUST'' \<notin> set (undefined_names (header_directives riot_c2rust_h))
       \<and> macros (preprocess plain_headers riot_c2rust_h no_macros) ''IS_C2RUST'' \<noteq> None"
  proof (rule IS_C2RUST_persists)
    show "halted (preprocess plain_headers riot_c2rust_h no_macros) = None"
      by (rule h)
  next
    fix m m' :: menv
    assume "plain_headers (Quote, ''riot-headers.h'') m = Some m'"
      and "m ''IS_C2RUST'' \<noteq> None"
    then show "m' ''IS_C2RUST'' \<noteq> None"
      by (simp add: plain_headers_def)
  qed
  with h show ?thesis
    by simp
qed

text \<open>
  C10. During a run of the c2rust header, \<open>rmutex.h\<close> is entered once, with all five
  workaround macros defined. Whenever \<open>riot-headers.h\<close> is entered, none of the five is
  defined and \<open>IS_C2RUST\<close> is defined (as an object-like macro with an empty replacement
  list). No other inclusion is made, and a run that ends without error has entered
  \<open>riot-headers.h\<close> exactly once.
\<close>

theorem riot_headers_entered_without_workaround:
  "(\<exists>m. seen_by (Angle, ''rmutex.h'') (preprocess H riot_c2rust_h e) = [m]
        \<and> (\<forall>n \<in> set [''__CLANG_STDATOMIC_H'', ''_STDATOMIC_H'', ''_STDATOMIC_H_'',
                       ''ATOMIC_VAR_INIT'', ''atomic_int_least16_t'']. m n \<noteq> None))
   \<and> (\<forall>m \<in> set (seen_by (Quote, ''riot-headers.h'') (preprocess H riot_c2rust_h e)).
         (\<forall>n \<in> set [''__CLANG_STDATOMIC_H'', ''_STDATOMIC_H'', ''_STDATOMIC_H_'',
                      ''ATOMIC_VAR_INIT'', ''atomic_int_least16_t'']. m n = None)
         \<and> m ''IS_C2RUST'' = Some (None, []))
   \<and> set (map fst (entered (preprocess H riot_c2rust_h e)))
        \<subseteq> {(Angle, ''rmutex.h''), (Quote, ''riot-headers.h'')}
   \<and> (halted (preprocess H riot_c2rust_h e) = None \<longrightarrow>
        length (seen_by (Quote, ''riot-headers.h'') (preprocess H riot_c2rust_h e)) = 1)"
proof -
  have a: "\<exists>m. seen_by (Angle, ''rmutex.h'') (preprocess H riot_c2rust_h e) = [m]
        \<and> (\<forall>n \<in> set [''__CLANG_STDATOMIC_H'', ''_STDATOMIC_H'', ''_STDATOMIC_H_'',
                       ''ATOMIC_VAR_INIT'', ''atomic_int_least16_t'']. m n \<noteq> None)"
    using entered_riot_c2rust_h [OF refl, of H e]
    by (simp add: seen_by_def split: option.splits)
  have b: "\<forall>m \<in> set (seen_by (Quote, ''riot-headers.h'') (preprocess H riot_c2rust_h e)).
         (\<forall>n \<in> set [''__CLANG_STDATOMIC_H'', ''_STDATOMIC_H'', ''_STDATOMIC_H_'',
                      ''ATOMIC_VAR_INIT'', ''atomic_int_least16_t'']. m n = None)
         \<and> m ''IS_C2RUST'' = Some (None, [])"
    using entered_riot_c2rust_h [OF refl, of H e]
    by (simp add: seen_by_def split: option.splits)
  have c: "set (map fst (entered (preprocess H riot_c2rust_h e)))
        \<subseteq> {(Angle, ''rmutex.h''), (Quote, ''riot-headers.h'')}"
    using entered_riot_c2rust_h [OF refl, of H e]
    by (simp split: option.splits)
  have d: "halted (preprocess H riot_c2rust_h e) = None \<longrightarrow>
        length (seen_by (Quote, ''riot-headers.h'') (preprocess H riot_c2rust_h e)) = 1"
    using completed_riot_c2rust_h [of H e] by auto
  show ?thesis
    using a b c d by blast
qed

theorem riot_headers_entered_without_workaround_witness:
  "halted (preprocess plain_headers riot_c2rust_h no_macros) = None
   \<and> length (seen_by (Quote, ''riot-headers.h'')
        (preprocess plain_headers riot_c2rust_h no_macros)) = 1
   \<and> map (\<lambda>m. m ''_STDATOMIC_H'')
        (seen_by (Quote, ''riot-headers.h'')
          (preprocess plain_headers riot_c2rust_h no_macros)) = [None]
   \<and> map (\<lambda>m. m ''IS_C2RUST'')
        (seen_by (Quote, ''riot-headers.h'')
          (preprocess plain_headers riot_c2rust_h no_macros)) = [Some (None, [])]"
proof -
  have h: "halted (preprocess plain_headers riot_c2rust_h no_macros) = None"
    by (rule plain_headers_complete)
  note t = riot_headers_entered_without_workaround [of plain_headers no_macros]
  from t h obtain m
    where m: "seen_by (Quote, ''riot-headers.h'')
                (preprocess plain_headers riot_c2rust_h no_macros) = [m]"
    by (auto simp: length_Suc_conv)
  with t have "m ''_STDATOMIC_H'' = None" "m ''IS_C2RUST'' = Some (None, [])"
    by simp_all
  with h m show ?thesis
    by simp
qed

end
